theory Spec2Isabelle
  imports Main
begin

section \<open>Python primitives used by the client\<close>

text \<open>
  The client is Python.  Its strings are modelled as \<open>string\<close>, its unbounded integers as
  \<open>int\<close>.  Three built-ins occur in the code under study: \<^verbatim>\<open>str.join\<close>, the decimal
  rendering of an integer inside an f-string, and \<^verbatim>\<open>int(...)\<close> applied to a header value.
  The first two are defined here.  The third is a parameter of the client, called
  \<open>py_int\<close> below: what \<^verbatim>\<open>int\<close> accepts depends on the interpreter (its Unicode tables and
  its limit on the number of digits), and no property of the client depends on it.
\<close>

text \<open>\<^verbatim>\<open>sep.join(xs)\<close>: the elements of \<open>xs\<close> with \<open>sep\<close> between neighbours.\<close>

fun join :: "string \<Rightarrow> string list \<Rightarrow> string" where
  "join sep [] = []"
| "join sep [x] = x"
| "join sep (x # y # ys) = x @ sep @ join sep (y # ys)"

definition digit_char :: "nat \<Rightarrow> char" where
  "digit_char d = ''0123456789'' ! d"

text \<open>Decimal digits of a natural number, most significant first, no leading zero.\<close>

fun str_nat :: "nat \<Rightarrow> string" where
  "str_nat n = (if n < 10 then [digit_char n] else str_nat (n div 10) @ [digit_char (n mod 10)])"

declare str_nat.simps [simp del]

text \<open>\<^verbatim>\<open>f"{i}"\<close> for an integer \<open>i\<close>: a minus sign for negative values, then the digits.\<close>

definition str_int :: "int \<Rightarrow> string" where
  "str_int i = (if i < 0 then CHR ''-'' # str_nat (nat (- i)) else str_nat (nat i))"

section \<open>Search options\<close>

text \<open>
  \<^verbatim>\<open>SearchFilter\<close> and \<^verbatim>\<open>SearchField\<close> are \<^verbatim>\<open>NewType\<close>s of \<^verbatim>\<open>str\<close>: at run time any
  string is a value of them, so they are strings here.  The three option classes are
  \<^verbatim>\<open>NamedTuple\<close>s; the optional members default to \<^verbatim>\<open>None\<close>.
\<close>

type_synonym SearchFilter = string
type_synonym SearchField = string

definition SearchFilterUse :: SearchFilter where "SearchFilterUse = ''use''"
definition SearchFilterIgnore :: SearchFilter where "SearchFilterIgnore = ''ignore''"
definition SearchFieldEmail :: SearchField where "SearchFieldEmail = ''email''"

record SearchFilterOptions =
  sfo_type :: SearchFilter
  sfo_databases :: "string list"

record SearchPaginationOptions =
  spo_offset :: int
  spo_limit :: int

record SearchOptions =
  so_field :: SearchField
  so_query :: string
  so_filter :: "SearchFilterOptions option"
  so_pagination :: "SearchPaginationOptions option"

definition API_BASE_URL :: string where
  "API_BASE_URL = ''https://api.hackcheck.io''"

text \<open>
  \<^verbatim>\<open>_generate_search_url\<close>.  The tests \<^verbatim>\<open>if options.filter\<close> and
  \<^verbatim>\<open>if options.pagination\<close> are truth tests of a two-member named tuple or \<^verbatim>\<open>None\<close>;
  a two-member tuple is never empty, so each test succeeds exactly when the member is
  present.  \<open>params\<close> is the list the code appends to.
\<close>

definition generate_search_url :: "SearchOptions \<Rightarrow> string" where
  "generate_search_url options =
    (let url = API_BASE_URL @ ''/search/'' @ so_field options @ ''/'' @ so_query options;
         params = [];
         params = (case so_filter options of
                     None \<Rightarrow> params
                   | Some f \<Rightarrow> params @ [''filter='' @ sfo_type f]
                                     @ [''databases='' @ join '','' (sfo_databases f)]);
         params = (case so_pagination options of
                     None \<Rightarrow> params
                   | Some p \<Rightarrow> params @ [''offset='' @ str_int (spo_offset p)]
                                     @ [''limit='' @ str_int (spo_limit p)])
     in if params \<noteq> [] then url @ ''?'' @ join ''&'' params else url)"

text \<open>
  \<^verbatim>\<open>int(s)\<close> on ASCII strings, base ten, as CPython reads it: the blanks
  \<^verbatim>\<open>\t \n \v \f \r\<close> and the space are dropped at both ends, one sign may lead, then come
  decimal digits, where a single underscore may stand between two digits; a literal of
  more than 4300 digits is refused (the interpreter's default limit).  Anything else raises
  \<^verbatim>\<open>ValueError\<close>.  Strings with characters outside ASCII are refused here, which
  \<^verbatim>\<open>int\<close> does not always do; \<open>ascii_int\<close> serves as the conversion in the examples, all of
  them ASCII.
\<close>

definition is_space :: "char \<Rightarrow> bool" where
  "is_space c = (c \<in> set [CHR 0x09, CHR 0x0A, CHR 0x0B, CHR 0x0C, CHR 0x0D, CHR '' ''])"

definition is_digit :: "char \<Rightarrow> bool" where
  "is_digit c = (c \<in> set ''0123456789'')"

definition digit_val :: "char \<Rightarrow> nat" where
  "digit_val c = of_char c - 48"

definition strip :: "string \<Rightarrow> string" where
  "strip s = rev (dropWhile is_space (rev (dropWhile is_space s)))"

fun digits_val :: "nat \<Rightarrow> string \<Rightarrow> nat option" where
  "digits_val acc [] = Some acc"
| "digits_val acc (c # cs) =
     (if is_digit c then digits_val (acc * 10 + digit_val c) cs
      else if c = CHR ''_'' \<and> cs \<noteq> [] \<and> is_digit (hd cs) then digits_val acc cs
      else None)"

definition unsigned_val :: "string \<Rightarrow> nat option" where
  "unsigned_val s =
     (if s \<noteq> [] \<and> is_digit (hd s) \<and> length (filter is_digit s) \<le> 4300
      then digits_val 0 s else None)"

section \<open>Errors and results\<close>

text \<open>
  The four exception classes of the module, the plain \<^verbatim>\<open>Exception\<close> of the 400/404
  branch, and the exceptions of the libraries the code calls: \<^verbatim>\<open>SerdeError\<close> of
  \<^verbatim>\<open>from_dict\<close>, \<^verbatim>\<open>JSONDecodeError\<close> of \<^verbatim>\<open>response.json()\<close>, \<^verbatim>\<open>ValueError\<close> of
  \<^verbatim>\<open>int\<close>, and whatever the transport raises.  A computation that may raise returns
  \<open>error + 'a\<close>, with \<open>Inl\<close> for the exception.
\<close>

datatype error =
    RateLimitError int int
  | UnauthorizedIPAddressError string
  | InvalidAPIKeyError string
  | ServerError string
  | Exception string
  | SerdeError
  | JSONDecodeError
  | ValueError
  | TransportError string

text \<open>Sequencing: the second step runs only when the first did not raise.\<close>

definition bind_result :: "error + 'a \<Rightarrow> ('a \<Rightarrow> error + 'b) \<Rightarrow> error + 'b" where
  "bind_result m f = (case m of Inl e \<Rightarrow> Inl e | Inr x \<Rightarrow> f x)"

definition ascii_int :: "string \<Rightarrow> error + int" where
  "ascii_int s =
     (case strip s of
        [] \<Rightarrow> Inl ValueError
      | c # cs \<Rightarrow>
          (if c = CHR ''-'' then
             (case unsigned_val cs of None \<Rightarrow> Inl ValueError | Some n \<Rightarrow> Inr (- int n))
           else if c = CHR ''+'' then
             (case unsigned_val cs of None \<Rightarrow> Inl ValueError | Some n \<Rightarrow> Inr (int n))
           else
             (case unsigned_val (c # cs) of None \<Rightarrow> Inl ValueError | Some n \<Rightarrow> Inr (int n))))"

section \<open>JSON values and the schema layer\<close>

text \<open>
  A JSON value as \<^verbatim>\<open>response.json()\<close> returns it.  An object is the dictionary it was
  parsed into; \<open>map_of\<close> is the lookup by key.  A float carries its literal, no member of
  the schema being a float.
\<close>

datatype json =
    JNull
  | JBool bool
  | JInt int
  | JFloat string
  | JString string
  | JArray "json list"
  | JObject "(string \<times> json) list"

text \<open>
  The classes decorated with \<^verbatim>\<open>@serde\<close> are decoded by \<^verbatim>\<open>from_dict\<close> of the pyserde
  library, member by member in the order of declaration:
  \<^item> a member without \<^verbatim>\<open>Optional\<close> is read with \<^verbatim>\<open>data[key]\<close>, so a missing key raises;
  \<^item> a member of type \<^verbatim>\<open>Optional[T]\<close> is \<^verbatim>\<open>None\<close> when \<^verbatim>\<open>data.get(key) is None\<close>, that is
    when the key is missing or its value is null, and is decoded as \<open>T\<close> otherwise;
  \<^item> a primitive member is checked against its declared type (the library's strict mode);
    a Python \<^verbatim>\<open>bool\<close> is an \<^verbatim>\<open>int\<close>;
  \<^item> a \<^verbatim>\<open>datetime\<close> member is read from a string by \<^verbatim>\<open>datetime.fromisoformat\<close>, which
    is a parameter of the decoders below;
  \<^item> a member of type \<^verbatim>\<open>List[T]\<close> is built by iterating over the value, whatever it is,
    and decoding each element as \<open>T\<close>: a list gives its elements, a dictionary its keys, a
    string its characters, and a value that cannot be iterated over raises;
  \<^item> keys the class does not declare are ignored.
\<close>

definition get_field :: "(string \<times> json) list \<Rightarrow> string \<Rightarrow> error + json" where
  "get_field data k = (case map_of data k of None \<Rightarrow> Inl SerdeError | Some v \<Rightarrow> Inr v)"

fun de_str :: "json \<Rightarrow> error + string" where
  "de_str (JString s) = Inr s"
| "de_str _ = Inl SerdeError"

fun de_int :: "json \<Rightarrow> error + int" where
  "de_int (JInt i) = Inr i"
| "de_int (JBool b) = Inr (if b then 1 else 0)"
| "de_int _ = Inl SerdeError"

fun de_bool :: "json \<Rightarrow> error + bool" where
  "de_bool (JBool b) = Inr b"
| "de_bool _ = Inl SerdeError"

fun de_datetime :: "(string \<Rightarrow> 'dt option) \<Rightarrow> json \<Rightarrow> error + 'dt" where
  "de_datetime fromisoformat (JString s) =
     (case fromisoformat s of None \<Rightarrow> Inl SerdeError | Some t \<Rightarrow> Inr t)"
| "de_datetime fromisoformat _ = Inl SerdeError"

definition de_opt ::
  "(json \<Rightarrow> error + 'a) \<Rightarrow> (string \<times> json) list \<Rightarrow> string \<Rightarrow> error + 'a option" where
  "de_opt f data k =
     (case map_of data k of
        None \<Rightarrow> Inr None
      | Some JNull \<Rightarrow> Inr None
      | Some v \<Rightarrow> bind_result (f v) (\<lambda>x. Inr (Some x)))"

fun de_each :: "(json \<Rightarrow> error + 'a) \<Rightarrow> json list \<Rightarrow> error + 'a list" where
  "de_each f [] = Inr []"
| "de_each f (v # vs) =
     bind_result (f v) (\<lambda>x. bind_result (de_each f vs) (\<lambda>xs. Inr (x # xs)))"

text \<open>The keys of a dictionary in the order of iteration, each once.\<close>

fun dict_keys :: "(string \<times> json) list \<Rightarrow> string list" where
  "dict_keys [] = []"
| "dict_keys ((k, v) # kvs) = k # filter (\<lambda>k'. k' \<noteq> k) (dict_keys kvs)"

fun de_list :: "(json \<Rightarrow> error + 'a) \<Rightarrow> json \<Rightarrow> error + 'a list" where
  "de_list f (JArray vs) = de_each f vs"
| "de_list f (JObject kvs) = de_each f (map JString (dict_keys kvs))"
| "de_list f (JString s) = de_each f (map (\<lambda>c. JString [c]) s)"
| "de_list f _ = Inl SerdeError"

record ErrorResponse =
  er_error :: string

fun from_dict_ErrorResponse :: "json \<Rightarrow> error + ErrorResponse" where
  "from_dict_ErrorResponse (JObject data) =
     bind_result (bind_result (get_field data ''error'') de_str) (\<lambda>e.
     Inr \<lparr>er_error = e\<rparr>)"
| "from_dict_ErrorResponse _ = Inl SerdeError"

record Source =
  src_name :: string
  src_date :: string

fun from_dict_Source :: "json \<Rightarrow> error + Source" where
  "from_dict_Source (JObject data) =
     bind_result (bind_result (get_field data ''name'') de_str) (\<lambda>n.
     bind_result (bind_result (get_field data ''date'') de_str) (\<lambda>d.
     Inr \<lparr>src_name = n, src_date = d\<rparr>))"
| "from_dict_Source _ = Inl SerdeError"

record SearchResult =
  sr_email :: string
  sr_password :: string
  sr_username :: string
  sr_full_name :: string
  sr_ip_address :: string
  sr_phone_number :: string
  sr_hash :: string
  sr_source :: Source

fun from_dict_SearchResult :: "json \<Rightarrow> error + SearchResult" where
  "from_dict_SearchResult (JObject data) =
     bind_result (bind_result (get_field data ''email'') de_str) (\<lambda>email.
     bind_result (bind_result (get_field data ''password'') de_str) (\<lambda>password.
     bind_result (bind_result (get_field data ''username'') de_str) (\<lambda>username.
     bind_result (bind_result (get_field data ''full_name'') de_str) (\<lambda>full_name.
     bind_result (bind_result (get_field data ''ip_address'') de_str) (\<lambda>ip_address.
     bind_result (bind_result (get_field data ''phone_number'') de_str) (\<lambda>phone_number.
     bind_result (bind_result (get_field data ''hash'') de_str) (\<lambda>hash.
     bind_result (bind_result (get_field data ''source'') from_dict_Source) (\<lambda>source.
     Inr \<lparr>sr_email = email, sr_password = password, sr_username = username,
          sr_full_name = full_name, sr_ip_address = ip_address,
          sr_phone_number = phone_number, sr_hash = hash, sr_source = source\<rparr>))))))))"
| "from_dict_SearchResult _ = Inl SerdeError"

record PaginationData =
  pd_offset :: int
  pd_limit :: int

fun from_dict_PaginationData :: "json \<Rightarrow> error + PaginationData" where
  "from_dict_PaginationData (JObject data) =
     bind_result (bind_result (get_field data ''offset'') de_int) (\<lambda>offset.
     bind_result (bind_result (get_field data ''limit'') de_int) (\<lambda>limit.
     Inr \<lparr>pd_offset = offset, pd_limit = limit\<rparr>))"
| "from_dict_PaginationData _ = Inl SerdeError"

record SearchResponsePagination =
  srp_document_count :: int
  srp_next :: "PaginationData option"
  srp_prev :: "PaginationData option"

fun from_dict_SearchResponsePagination :: "json \<Rightarrow> error + SearchResponsePagination" where
  "from_dict_SearchResponsePagination (JObject data) =
     bind_result (bind_result (get_field data ''document_count'') de_int) (\<lambda>document_count.
     bind_result (de_opt from_dict_PaginationData data ''next'') (\<lambda>next.
     bind_result (de_opt from_dict_PaginationData data ''prev'') (\<lambda>prev.
     Inr \<lparr>srp_document_count = document_count, srp_next = next, srp_prev = prev\<rparr>)))"
| "from_dict_SearchResponsePagination _ = Inl SerdeError"

record SearchResponse =
  resp_databases :: int
  resp_results :: "SearchResult list"
  resp_pagination :: "SearchResponsePagination option"
  resp_first_seen :: string
  resp_last_seen :: string

fun from_dict_SearchResponse :: "json \<Rightarrow> error + SearchResponse" where
  "from_dict_SearchResponse (JObject data) =
     bind_result (bind_result (get_field data ''databases'') de_int) (\<lambda>databases.
     bind_result (bind_result (get_field data ''results'') (de_list from_dict_SearchResult))
       (\<lambda>results.
     bind_result (de_opt from_dict_SearchResponsePagination data ''pagination'') (\<lambda>pagination.
     bind_result (bind_result (get_field data ''first_seen'') de_str) (\<lambda>first_seen.
     bind_result (bind_result (get_field data ''last_seen'') de_str) (\<lambda>last_seen.
     Inr \<lparr>resp_databases = databases, resp_results = results,
          resp_pagination = pagination, resp_first_seen = first_seen,
          resp_last_seen = last_seen\<rparr>)))))"
| "from_dict_SearchResponse _ = Inl SerdeError"

text \<open>\<^verbatim>\<open>MonitorStatus\<close> is a \<^verbatim>\<open>NewType\<close> of \<^verbatim>\<open>int\<close>.\<close>

type_synonym MonitorStatus = int

definition MonitorStatusRunning :: MonitorStatus where "MonitorStatusRunning = 0"
definition MonitorStatusPaused :: MonitorStatus where "MonitorStatusPaused = 1"
definition MonitorStatusExpired :: MonitorStatus where "MonitorStatusExpired = 2"

record 'dt AssetMonitor =
  am_id :: string
  am_status :: MonitorStatus
  am_type :: SearchField
  am_asset :: string
  am_notification_email :: string
  am_expires_soon :: bool
  am_created_at :: 'dt
  am_ends_at :: 'dt

fun from_dict_AssetMonitor :: "(string \<Rightarrow> 'dt option) \<Rightarrow> json \<Rightarrow> error + 'dt AssetMonitor" where
  "from_dict_AssetMonitor fromisoformat (JObject data) =
     bind_result (bind_result (get_field data ''id'') de_str) (\<lambda>id.
     bind_result (bind_result (get_field data ''status'') de_int) (\<lambda>status.
     bind_result (bind_result (get_field data ''type'') de_str) (\<lambda>type.
     bind_result (bind_result (get_field data ''asset'') de_str) (\<lambda>asset.
     bind_result (bind_result (get_field data ''notification_email'') de_str)
       (\<lambda>notification_email.
     bind_result (bind_result (get_field data ''expires_soon'') de_bool) (\<lambda>expires_soon.
     bind_result (bind_result (get_field data ''created_at'') (de_datetime fromisoformat))
       (\<lambda>created_at.
     bind_result (bind_result (get_field data ''ends_at'') (de_datetime fromisoformat))
       (\<lambda>ends_at.
     Inr \<lparr>am_id = id, am_status = status, am_type = type, am_asset = asset,
          am_notification_email = notification_email, am_expires_soon = expires_soon,
          am_created_at = created_at, am_ends_at = ends_at\<rparr>))))))))"
| "from_dict_AssetMonitor fromisoformat _ = Inl SerdeError"

record UpdateAssetMonitorParams =
  uam_asset_type :: SearchField
  uam_asset :: string
  uam_notification_email :: string

text \<open>\<^verbatim>\<open>to_dict\<close>: the declared members under their declared names, in order.\<close>

definition to_dict_UpdateAssetMonitorParams :: "UpdateAssetMonitorParams \<Rightarrow> json" where
  "to_dict_UpdateAssetMonitorParams params =
     JObject [(''asset_type'', JString (uam_asset_type params)),
              (''asset'', JString (uam_asset params)),
              (''notification_email'', JString (uam_notification_email params))]"

section \<open>The client\<close>

text \<open>
  The transport (\<^verbatim>\<open>httpx.AsyncClient.request\<close>) is a parameter: it is given the request
  and either raises or delivers a response.  Of a response the client reads the status
  code, header values by name (\<^verbatim>\<open>response.headers.get\<close>) and the parsed body
  (\<^verbatim>\<open>response.json()\<close>, \<open>None\<close> standing for a body that is not JSON).  The built-in
  \<^verbatim>\<open>int\<close> on strings is the parameter \<open>py_int\<close>.
\<close>

record http_request =
  req_method :: string
  req_url :: string
  req_json :: "json option"
  req_headers :: "(string \<times> string) list"

record response =
  status_code :: int
  headers :: "string \<Rightarrow> string option"
  body_json :: "json option"

type_synonym transport = "http_request \<Rightarrow> error + response"

definition response_json :: "response \<Rightarrow> error + json" where
  "response_json r = (case body_json r of None \<Rightarrow> Inl JSONDecodeError | Some j \<Rightarrow> Inr j)"

text \<open>\<^verbatim>\<open>int(response.headers.get(name, 0))\<close>: the default \<open>0\<close> when the header is absent.\<close>

definition int_header :: "(string \<Rightarrow> error + int) \<Rightarrow> response \<Rightarrow> string \<Rightarrow> error + int" where
  "int_header py_int r name = (case headers r name of None \<Rightarrow> Inr 0 | Some s \<Rightarrow> py_int s)"

text \<open>\<^verbatim>\<open>HackCheckClient._request\<close>.\<close>

definition request ::
  "(string \<Rightarrow> error + int) \<Rightarrow> transport \<Rightarrow> string \<Rightarrow> string \<Rightarrow> string \<Rightarrow> json option
     \<Rightarrow> error + json" where
  "request py_int http api_key method url body =
     bind_result
       (http \<lparr>req_method = method, req_url = url, req_json = body,
              req_headers = [(''Authorization'', ''Bearer '' @ api_key)]\<rparr>)
       (\<lambda>response.
          if status_code response = 401 then
            bind_result (bind_result (response_json response) from_dict_ErrorResponse) (\<lambda>data.
              if er_error data = ''Invalid API key.'' then
                Inl (InvalidAPIKeyError ''The provided API key is invalid.'')
              else if er_error data = ''Unauthorized IP address.'' then
                Inl (UnauthorizedIPAddressError
                       ''The request is coming from an unauthorized IP address.'')
              else Inl (ServerError ''An unknown server error occurred.''))
          else if status_code response = 429 then
            bind_result (int_header py_int response ''X-HackCheck-Limit'') (\<lambda>limit.
            bind_result (int_header py_int response ''X-HackCheck-Remaining'') (\<lambda>remaining.
            Inl (RateLimitError limit remaining)))
          else if status_code response \<in> {400, 404} then
            bind_result (bind_result (response_json response) from_dict_ErrorResponse) (\<lambda>data.
              Inl (Exception (er_error data)))
          else response_json response)"

text \<open>\<^verbatim>\<open>HackCheckClient.search\<close> and \<^verbatim>\<open>HackCheckClient.update_asset_monitor\<close>.\<close>

definition search ::
  "(string \<Rightarrow> error + int) \<Rightarrow> transport \<Rightarrow> string \<Rightarrow> SearchOptions
     \<Rightarrow> error + SearchResponse" where
  "search py_int http api_key options =
     (let url = generate_search_url options in
      bind_result (request py_int http api_key ''GET'' url None) from_dict_SearchResponse)"

definition update_asset_monitor ::
  "(string \<Rightarrow> error + int) \<Rightarrow> transport \<Rightarrow> string \<Rightarrow> (string \<Rightarrow> 'dt option) \<Rightarrow> string
     \<Rightarrow> UpdateAssetMonitorParams \<Rightarrow> error + 'dt AssetMonitor" where
  "update_asset_monitor py_int http api_key fromisoformat monitor_id params =
     (let url = API_BASE_URL @ ''/monitors/asset/'' @ monitor_id in
      bind_result
        (request py_int http api_key ''PUT'' url (Some (to_dict_UpdateAssetMonitorParams params)))
        (from_dict_AssetMonitor fromisoformat))"

text \<open>A transport that answers every request with the given response.\<close>

definition answering :: "response \<Rightarrow> transport" where
  "answering r = (\<lambda>req. Inr r)"

text \<open>A response without headers.\<close>

definition no_headers :: "string \<Rightarrow> string option" where
  "no_headers = (\<lambda>name. None)"

section \<open>URL construction\<close>

lemma str_nat_digit: "n < 10 \<Longrightarrow> str_nat n = [digit_char n]"
  by (simp add: str_nat.simps)

lemma str_nat_step: "10 \<le> n \<Longrightarrow> str_nat n = str_nat (n div 10) @ [digit_char (n mod 10)]"
  by (subst str_nat.simps) simp

lemma str_int_0: "str_int 0 = ''0''"
  by (simp add: str_int_def str_nat_digit digit_char_def)

lemma str_int_10: "str_int 10 = ''10''"
  by (simp add: str_int_def str_nat_step str_nat_digit digit_char_def)

text \<open>
  C1.  With both filter and pagination present the URL is the base, the two path
  segments, one question mark, and the four parameters \<open>filter\<close>, \<open>databases\<close>,
  \<open>offset\<close>, \<open>limit\<close> in that order, separated by ampersands.
\<close>

theorem search_url_filter_and_pagination:
  assumes "so_filter options = Some f" and "so_pagination options = Some p"
  shows "generate_search_url options =
           API_BASE_URL @ ''/search/'' @ so_field options @ ''/'' @ so_query options
           @ ''?'' @ ''filter='' @ sfo_type f
           @ ''&'' @ ''databases='' @ join '','' (sfo_databases f)
           @ ''&'' @ ''offset='' @ str_int (spo_offset p)
           @ ''&'' @ ''limit='' @ str_int (spo_limit p)"
  using assms by (simp add: generate_search_url_def)

theorem search_url_filter_and_pagination_witness:
  "generate_search_url
     \<lparr>so_field = SearchFieldEmail, so_query = ''a@b.com'',
      so_filter = Some \<lparr>sfo_type = SearchFilterUse, sfo_databases = [''x'', ''y'']\<rparr>,
      so_pagination = Some \<lparr>spo_offset = 0, spo_limit = 10\<rparr>\<rparr>
   = ''https://api.hackcheck.io/search/email/a@b.com?filter=use&databases=x,y&offset=0&limit=10''"
  using search_url_filter_and_pagination
    [of "\<lparr>so_field = SearchFieldEmail, so_query = ''a@b.com'',
          so_filter = Some \<lparr>sfo_type = SearchFilterUse, sfo_databases = [''x'', ''y'']\<rparr>,
          so_pagination = Some \<lparr>spo_offset = 0, spo_limit = 10\<rparr>\<rparr>"
        "\<lparr>sfo_type = SearchFilterUse, sfo_databases = [''x'', ''y'']\<rparr>"
        "\<lparr>spo_offset = 0, spo_limit = 10\<rparr>"]
  by (simp add: API_BASE_URL_def SearchFieldEmail_def SearchFilterUse_def str_int_0 str_int_10)

text \<open>
  C8.  With neither filter nor pagination the URL is the base and the two path segments,
  with nothing appended.
\<close>

theorem search_url_no_options:
  assumes "so_filter options = None" and "so_pagination options = None"
  shows "generate_search_url options =
           API_BASE_URL @ ''/search/'' @ so_field options @ ''/'' @ so_query options"
  using assms by (simp add: generate_search_url_def)

theorem search_url_no_options_witness:
  "generate_search_url
     \<lparr>so_field = SearchFieldEmail, so_query = ''example@example.com'',
      so_filter = None, so_pagination = None\<rparr>
   = ''https://api.hackcheck.io/search/email/example@example.com''"
  using search_url_no_options
    [of "\<lparr>so_field = SearchFieldEmail, so_query = ''example@example.com'',
          so_filter = None, so_pagination = None\<rparr>"]
  by (simp add: API_BASE_URL_def SearchFieldEmail_def)

text \<open>
  C9.  A filter with an empty database list still produces a query string: the question
  mark, \<open>filter=\<close> with the mode, then \<open>databases=\<close> with an empty value, then the
  pagination parameters when pagination is present.
\<close>

theorem search_url_empty_databases:
  assumes "so_filter options = Some f" and "sfo_databases f = []"
  shows "generate_search_url options =
           API_BASE_URL @ ''/search/'' @ so_field options @ ''/'' @ so_query options
           @ ''?'' @ ''filter='' @ sfo_type f @ ''&'' @ ''databases=''
           @ (case so_pagination options of
                None \<Rightarrow> []
              | Some p \<Rightarrow> ''&'' @ ''offset='' @ str_int (spo_offset p)
                          @ ''&'' @ ''limit='' @ str_int (spo_limit p))"
  using assms by (simp add: generate_search_url_def split: option.split)

theorem search_url_empty_databases_witness:
  "generate_search_url
     \<lparr>so_field = SearchFieldEmail, so_query = ''a@b.com'',
      so_filter = Some \<lparr>sfo_type = SearchFilterIgnore, sfo_databases = []\<rparr>,
      so_pagination = None\<rparr>
   = ''https://api.hackcheck.io/search/email/a@b.com?filter=ignore&databases=''"
  using search_url_empty_databases
    [of "\<lparr>so_field = SearchFieldEmail, so_query = ''a@b.com'',
          so_filter = Some \<lparr>sfo_type = SearchFilterIgnore, sfo_databases = []\<rparr>,
          so_pagination = None\<rparr>"
        "\<lparr>sfo_type = SearchFilterIgnore, sfo_databases = []\<rparr>"]
  by (simp add: API_BASE_URL_def SearchFieldEmail_def SearchFilterIgnore_def)

section \<open>Error classification\<close>

lemma bind_result_Inl [simp]: "bind_result (Inl e) f = Inl e"
  by (simp add: bind_result_def)

lemma bind_result_Inr [simp]: "bind_result (Inr x) f = f x"
  by (simp add: bind_result_def)

lemma answering_apply [simp]: "answering r req = Inr r"
  by (simp add: answering_def)

lemma no_headers_apply [simp]: "no_headers name = None"
  by (simp add: no_headers_def)

lemmas ascii_int_eval =
  ascii_int_def strip_def is_space_def unsigned_val_def is_digit_def digit_val_def

lemma ascii_int_100: "ascii_int ''100'' = Inr 100"
  by (simp add: ascii_int_eval)

lemma ascii_int_0: "ascii_int ''0'' = Inr 0"
  by (simp add: ascii_int_eval)

lemma ascii_int_abc: "ascii_int ''abc'' = Inl ValueError"
  by (simp add: ascii_int_eval)

lemma ascii_int_na: "ascii_int ''n/a'' = Inl ValueError"
  by (simp add: ascii_int_eval)

lemma bind_result_eq_Inr: "bind_result m f = Inr y \<longleftrightarrow> (\<exists>x. m = Inr x \<and> f x = Inr y)"
  by (cases m) simp_all

lemma de_opt_absent:
  "map_of data k = None \<or> map_of data k = Some JNull \<Longrightarrow> de_opt f data k = Inr None"
  by (auto simp add: de_opt_def)

lemma request_delivered:
  assumes "http \<lparr>req_method = method, req_url = url, req_json = body,
                 req_headers = [(''Authorization'', ''Bearer '' @ api_key)]\<rparr> = Inr response"
  shows "request py_int http api_key method url body =
           (if status_code response = 401 then
              bind_result (bind_result (response_json response) from_dict_ErrorResponse) (\<lambda>data.
                if er_error data = ''Invalid API key.'' then
                  Inl (InvalidAPIKeyError ''The provided API key is invalid.'')
                else if er_error data = ''Unauthorized IP address.'' then
                  Inl (UnauthorizedIPAddressError
                         ''The request is coming from an unauthorized IP address.'')
                else Inl (ServerError ''An unknown server error occurred.''))
            else if status_code response = 429 then
              bind_result (int_header py_int response ''X-HackCheck-Limit'') (\<lambda>limit.
              bind_result (int_header py_int response ''X-HackCheck-Remaining'') (\<lambda>remaining.
              Inl (RateLimitError limit remaining)))
            else if status_code response \<in> {400, 404} then
              bind_result (bind_result (response_json response) from_dict_ErrorResponse)
                (\<lambda>data. Inl (Exception (er_error data)))
            else response_json response)"
  using assms by (simp add: request_def)

lemma int_header_value:
  "(headers r name = None \<and> n = 0) \<or> (\<exists>v. headers r name = Some v \<and> py_int v = Inr n)
   \<Longrightarrow> int_header py_int r name = Inr n"
  by (auto simp add: int_header_def)

text \<open>
  C2.  A 401 response whose body is a JSON object with a string member \<open>error\<close> raises
  exactly one of three errors, chosen by that string: \<open>InvalidAPIKeyError\<close> for
  \<open>Invalid API key.\<close>, \<open>UnauthorizedIPAddressError\<close> for \<open>Unauthorized IP address.\<close>,
  and \<open>ServerError\<close> for every other string.
\<close>

theorem unauthorized_dispatch:
  assumes "http \<lparr>req_method = method, req_url = url, req_json = body,
                 req_headers = [(''Authorization'', ''Bearer '' @ api_key)]\<rparr> = Inr response"
    and "status_code response = 401"
    and "body_json response = Some (JObject data)"
    and "map_of data ''error'' = Some (JString s)"
  shows "request py_int http api_key method url body =
           (if s = ''Invalid API key.'' then
              Inl (InvalidAPIKeyError ''The provided API key is invalid.'')
            else if s = ''Unauthorized IP address.'' then
              Inl (UnauthorizedIPAddressError
                     ''The request is coming from an unauthorized IP address.'')
            else Inl (ServerError ''An unknown server error occurred.''))"
  using assms by (simp add: request_def response_json_def get_field_def)

theorem unauthorized_dispatch_witness:
  "request ascii_int (answering \<lparr>status_code = 401, headers = no_headers, body_json = Some (JObject [(''error'', JString ''Invalid API key.'')])\<rparr>) ''KEY'' ''GET'' ''https://api.hackcheck.io/monitors'' None
   = Inl (InvalidAPIKeyError ''The provided API key is invalid.'')
   \<and> request ascii_int (answering \<lparr>status_code = 401, headers = no_headers, body_json = Some (JObject [(''error'', JString ''Unauthorized IP address.'')])\<rparr>) ''KEY'' ''GET'' ''https://api.hackcheck.io/monitors'' None
   = Inl (UnauthorizedIPAddressError ''The request is coming from an unauthorized IP address.'')
   \<and> request ascii_int (answering \<lparr>status_code = 401, headers = no_headers, body_json = Some (JObject [(''error'', JString ''Key expired.'')])\<rparr>) ''KEY'' ''GET'' ''https://api.hackcheck.io/monitors'' None
   = Inl (ServerError ''An unknown server error occurred.'')"
  using unauthorized_dispatch
    [of "answering \<lparr>status_code = 401, headers = no_headers, body_json = Some (JObject [(''error'', JString ''Invalid API key.'')])\<rparr>" "''GET''" "''https://api.hackcheck.io/monitors''" None "''KEY''"
        "\<lparr>status_code = 401, headers = no_headers, body_json = Some (JObject [(''error'', JString ''Invalid API key.'')])\<rparr>"
        "[(''error'', JString ''Invalid API key.'')]" "''Invalid API key.''" ascii_int]
    unauthorized_dispatch
    [of "answering \<lparr>status_code = 401, headers = no_headers, body_json = Some (JObject [(''error'', JString ''Unauthorized IP address.'')])\<rparr>" "''GET''" "''https://api.hackcheck.io/monitors''" None "''KEY''"
        "\<lparr>status_code = 401, headers = no_headers, body_json = Some (JObject [(''error'', JString ''Unauthorized IP address.'')])\<rparr>"
        "[(''error'', JString ''Unauthorized IP address.'')]" "''Unauthorized IP address.''" ascii_int]
    unauthorized_dispatch
    [of "answering \<lparr>status_code = 401, headers = no_headers, body_json = Some (JObject [(''error'', JString ''Key expired.'')])\<rparr>" "''GET''" "''https://api.hackcheck.io/monitors''" None "''KEY''"
        "\<lparr>status_code = 401, headers = no_headers, body_json = Some (JObject [(''error'', JString ''Key expired.'')])\<rparr>"
        "[(''error'', JString ''Key expired.'')]" "''Key expired.''" ascii_int]
  by simp

text \<open>
  A 401 response is not always answered by one of the three: when the body has no
  \<open>error\<close> member the decoding of the error payload raises first.
\<close>

theorem unauthorized_without_error_member:
  "request ascii_int (answering \<lparr>status_code = 401, headers = no_headers, body_json = Some (JObject [])\<rparr>) ''KEY'' ''GET'' ''https://api.hackcheck.io/monitors'' None = Inl SerdeError
   \<and> Inl SerdeError \<notin>
       {Inl (InvalidAPIKeyError ''The provided API key is invalid.''),
        Inl (UnauthorizedIPAddressError ''The request is coming from an unauthorized IP address.''),
        Inl (ServerError ''An unknown server error occurred.'') :: error + json}"
  by (simp add: request_def response_json_def get_field_def)

text \<open>
  C3.  The status code is looked at before the payload is decoded for the caller; \<open>decode\<close>
  stands for the payload decoder of the operation.  When the status is 401, 429, 400 or
  404 the routine raises and the operation raises the same error, so the body never
  reaches \<open>decode\<close>.  The error is the one the status stands for whenever the error payload,
  or for 429 the two rate-limit headers, can be read: for 401 the error chosen by the error
  string, for 429 \<open>RateLimitError\<close> with the two header values, for 400 and 404 the plain
  exception with the error string.  Otherwise it is the failure of reading them: of
  \<^verbatim>\<open>response.json()\<close>, of the decoding of the error payload, or of the conversion of a
  header.  For any other status the operation's outcome is \<open>decode\<close> applied to the JSON
  body, or the failure to read the body as JSON.
\<close>

theorem classification_precedes_decode:
  assumes "http \<lparr>req_method = method, req_url = url, req_json = body,
                 req_headers = [(''Authorization'', ''Bearer '' @ api_key)]\<rparr> = Inr response"
  shows
    "(status_code response \<in> {401, 429, 400, 404} \<longrightarrow>
        (\<exists>e. request py_int http api_key method url body = Inl e
           \<and> bind_result (request py_int http api_key method url body) decode = Inl e))
     \<and> (status_code response = 401 \<longrightarrow> body_json response = Some (JObject data) \<longrightarrow>
        map_of data ''error'' = Some (JString s) \<longrightarrow>
        bind_result (request py_int http api_key method url body) decode =
          (if s = ''Invalid API key.'' then
              Inl (InvalidAPIKeyError ''The provided API key is invalid.'')
            else if s = ''Unauthorized IP address.'' then
              Inl (UnauthorizedIPAddressError
                     ''The request is coming from an unauthorized IP address.'')
            else Inl (ServerError ''An unknown server error occurred.'')))
     \<and> (status_code response = 429 \<longrightarrow>
        int_header py_int response ''X-HackCheck-Limit'' = Inr limit \<longrightarrow>
        int_header py_int response ''X-HackCheck-Remaining'' = Inr remaining \<longrightarrow>
        bind_result (request py_int http api_key method url body) decode = Inl (RateLimitError limit remaining))
     \<and> (status_code response \<in> {400, 404} \<longrightarrow> body_json response = Some (JObject data) \<longrightarrow>
        map_of data ''error'' = Some (JString s) \<longrightarrow>
        bind_result (request py_int http api_key method url body) decode = Inl (Exception s))
     \<and> (status_code response \<in> {401, 400, 404} \<longrightarrow> body_json response = None \<longrightarrow>
        bind_result (request py_int http api_key method url body) decode = Inl JSONDecodeError)
     \<and> (status_code response \<in> {401, 400, 404} \<longrightarrow> body_json response = Some j \<longrightarrow>
        from_dict_ErrorResponse j = Inl e' \<longrightarrow>
        bind_result (request py_int http api_key method url body) decode = Inl e')
     \<and> (status_code response = 429 \<longrightarrow>
        int_header py_int response ''X-HackCheck-Limit'' = Inl e' \<longrightarrow>
        bind_result (request py_int http api_key method url body) decode = Inl e')
     \<and> (status_code response = 429 \<longrightarrow>
        int_header py_int response ''X-HackCheck-Limit'' = Inr limit \<longrightarrow>
        int_header py_int response ''X-HackCheck-Remaining'' = Inl e' \<longrightarrow>
        bind_result (request py_int http api_key method url body) decode = Inl e')
     \<and> (status_code response \<notin> {401, 429, 400, 404} \<longrightarrow>
        bind_result (request py_int http api_key method url body) decode =
          (case body_json response of
             None \<Rightarrow> Inl JSONDecodeError
           | Some j \<Rightarrow> decode j))"
proof -
  note req = request_delivered [of http "method" url body api_key response py_int, OF assms]
  let ?res = "request py_int http api_key method url body"
  let ?err = "bind_result (response_json response) from_dict_ErrorResponse"
  have e401: "status_code response = 401 \<Longrightarrow> \<exists>e. ?res = Inl e"
    by (cases ?err) (simp_all add: req)
  have e429: "status_code response = 429 \<Longrightarrow> \<exists>e. ?res = Inl e"
    by (cases "int_header py_int response ''X-HackCheck-Limit''";
        cases "int_header py_int response ''X-HackCheck-Remaining''")
       (simp_all add: req)
  have e40x: "status_code response = 400 \<or> status_code response = 404 \<Longrightarrow> \<exists>e. ?res = Inl e"
    by (cases ?err) (auto simp add: req)
  have raises: "status_code response \<in> {401, 429, 400, 404} \<Longrightarrow>
      \<exists>e. ?res = Inl e \<and> bind_result ?res decode = Inl e"
  proof -
    assume "status_code response \<in> {401, 429, 400, 404}"
    then obtain e where "?res = Inl e"
      using e401 e429 e40x by auto
    then show ?thesis by simp
  qed
  show ?thesis
    apply (intro conjI impI)
    subgoal by (rule raises)
    subgoal by (simp add: req response_json_def get_field_def)
    subgoal by (simp add: req)
    subgoal by (auto simp add: req response_json_def get_field_def)
    subgoal by (auto simp add: req response_json_def)
    subgoal by (auto simp add: req response_json_def)
    subgoal by (simp add: req)
    subgoal by (simp add: req)
    subgoal by (simp add: req response_json_def split: option.split)
    done
qed

theorem classification_precedes_decode_witness:
  "(\<exists>e. request ascii_int (answering \<lparr>status_code = 404, headers = no_headers, body_json = Some (JObject [(''error'', JString ''Not found.'')])\<rparr>) ''KEY'' ''GET'' ''https://api.hackcheck.io/search/email/a@b.com'' None = Inl e
        \<and> bind_result (request ascii_int (answering \<lparr>status_code = 404, headers = no_headers, body_json = Some (JObject [(''error'', JString ''Not found.'')])\<rparr>) ''KEY'' ''GET'' ''https://api.hackcheck.io/search/email/a@b.com'' None) from_dict_SearchResponse = Inl e)
   \<and> (bind_result (request ascii_int (answering \<lparr>status_code = 401, headers = no_headers, body_json = Some (JObject [(''error'', JString ''Invalid API key.'')])\<rparr>) ''KEY'' ''GET'' ''https://api.hackcheck.io/search/email/a@b.com'' None) from_dict_SearchResponse
      = Inl (InvalidAPIKeyError ''The provided API key is invalid.''))
   \<and> (bind_result (request ascii_int (answering \<lparr>status_code = 429, headers = no_headers(''X-HackCheck-Limit'' \<mapsto> ''100'', ''X-HackCheck-Remaining'' \<mapsto> ''0''), body_json = Some (JObject [(''error'', JString ''Too many requests.'')])\<rparr>) ''KEY'' ''GET'' ''https://api.hackcheck.io/search/email/a@b.com'' None) from_dict_SearchResponse
      = Inl (RateLimitError 100 0))
   \<and> (bind_result (request ascii_int (answering \<lparr>status_code = 400, headers = no_headers, body_json = Some (JObject [(''error'', JString ''bad field'')])\<rparr>) ''KEY'' ''GET'' ''https://api.hackcheck.io/search/email/a@b.com'' None) from_dict_SearchResponse
      = Inl (Exception ''bad field''))
   \<and> (bind_result (request ascii_int (answering \<lparr>status_code = 400, headers = no_headers, body_json = None\<rparr>) ''KEY'' ''GET'' ''https://api.hackcheck.io/search/email/a@b.com'' None) from_dict_SearchResponse
      = Inl JSONDecodeError)
   \<and> (bind_result (request ascii_int (answering \<lparr>status_code = 401, headers = no_headers, body_json = Some (JArray [])\<rparr>) ''KEY'' ''GET'' ''https://api.hackcheck.io/search/email/a@b.com'' None) from_dict_SearchResponse
      = Inl SerdeError)
   \<and> (bind_result (request ascii_int (answering \<lparr>status_code = 429, headers = no_headers(''X-HackCheck-Limit'' \<mapsto> ''abc''), body_json = None\<rparr>) ''KEY'' ''GET'' ''https://api.hackcheck.io/search/email/a@b.com'' None) from_dict_SearchResponse
      = Inl ValueError)
   \<and> (bind_result (request ascii_int (answering \<lparr>status_code = 429, headers = no_headers(''X-HackCheck-Remaining'' \<mapsto> ''n/a''), body_json = None\<rparr>) ''KEY'' ''GET'' ''https://api.hackcheck.io/search/email/a@b.com'' None) from_dict_SearchResponse
      = Inl ValueError)
   \<and> (bind_result (request ascii_int (answering \<lparr>status_code = 200, headers = no_headers, body_json = Some (JObject [(''error'', JString ''Not found.'')])\<rparr>) ''KEY'' ''GET'' ''https://api.hackcheck.io/search/email/a@b.com'' None) from_dict_SearchResponse
      = from_dict_SearchResponse (JObject [(''error'', JString ''Not found.'')]))"
proof -
  have w_raises:
    "\<exists>e. request ascii_int (answering \<lparr>status_code = 404, headers = no_headers, body_json = Some (JObject [(''error'', JString ''Not found.'')])\<rparr>) ''KEY'' ''GET'' ''https://api.hackcheck.io/search/email/a@b.com'' None = Inl e
        \<and> bind_result (request ascii_int (answering \<lparr>status_code = 404, headers = no_headers, body_json = Some (JObject [(''error'', JString ''Not found.'')])\<rparr>) ''KEY'' ''GET'' ''https://api.hackcheck.io/search/email/a@b.com'' None) from_dict_SearchResponse = Inl e"
    using classification_precedes_decode
      [of "answering \<lparr>status_code = 404, headers = no_headers, body_json = Some (JObject [(''error'', JString ''Not found.'')])\<rparr>" "''GET''" "''https://api.hackcheck.io/search/email/a@b.com''" None "''KEY''"
          "\<lparr>status_code = 404, headers = no_headers, body_json = Some (JObject [(''error'', JString ''Not found.'')])\<rparr>"
          ascii_int from_dict_SearchResponse "[]" "''''" 0 0 "JNull" SerdeError]
    by simp
  have w401:
    "bind_result (request ascii_int (answering \<lparr>status_code = 401, headers = no_headers, body_json = Some (JObject [(''error'', JString ''Invalid API key.'')])\<rparr>) ''KEY'' ''GET'' ''https://api.hackcheck.io/search/email/a@b.com'' None) from_dict_SearchResponse
      = Inl (InvalidAPIKeyError ''The provided API key is invalid.'')"
    using classification_precedes_decode
      [of "answering \<lparr>status_code = 401, headers = no_headers, body_json = Some (JObject [(''error'', JString ''Invalid API key.'')])\<rparr>" "''GET''" "''https://api.hackcheck.io/search/email/a@b.com''" None "''KEY''"
          "\<lparr>status_code = 401, headers = no_headers, body_json = Some (JObject [(''error'', JString ''Invalid API key.'')])\<rparr>"
          ascii_int from_dict_SearchResponse "[(''error'', JString ''Invalid API key.'')]" "''Invalid API key.''" 0 0 "JNull" SerdeError]
    by simp
  have w429:
    "bind_result (request ascii_int (answering \<lparr>status_code = 429, headers = no_headers(''X-HackCheck-Limit'' \<mapsto> ''100'', ''X-HackCheck-Remaining'' \<mapsto> ''0''), body_json = Some (JObject [(''error'', JString ''Too many requests.'')])\<rparr>) ''KEY'' ''GET'' ''https://api.hackcheck.io/search/email/a@b.com'' None) from_dict_SearchResponse
      = Inl (RateLimitError 100 0)"
    using classification_precedes_decode
      [of "answering \<lparr>status_code = 429, headers = no_headers(''X-HackCheck-Limit'' \<mapsto> ''100'', ''X-HackCheck-Remaining'' \<mapsto> ''0''), body_json = Some (JObject [(''error'', JString ''Too many requests.'')])\<rparr>" "''GET''" "''https://api.hackcheck.io/search/email/a@b.com''" None "''KEY''"
          "\<lparr>status_code = 429, headers = no_headers(''X-HackCheck-Limit'' \<mapsto> ''100'', ''X-HackCheck-Remaining'' \<mapsto> ''0''), body_json = Some (JObject [(''error'', JString ''Too many requests.'')])\<rparr>"
          ascii_int from_dict_SearchResponse "[]" "''''" 100 0 "JNull" SerdeError]
    by (simp add: int_header_def ascii_int_100 ascii_int_0)
  have w400:
    "bind_result (request ascii_int (answering \<lparr>status_code = 400, headers = no_headers, body_json = Some (JObject [(''error'', JString ''bad field'')])\<rparr>) ''KEY'' ''GET'' ''https://api.hackcheck.io/search/email/a@b.com'' None) from_dict_SearchResponse
      = Inl (Exception ''bad field'')"
    using classification_precedes_decode
      [of "answering \<lparr>status_code = 400, headers = no_headers, body_json = Some (JObject [(''error'', JString ''bad field'')])\<rparr>" "''GET''" "''https://api.hackcheck.io/search/email/a@b.com''" None "''KEY''"
          "\<lparr>status_code = 400, headers = no_headers, body_json = Some (JObject [(''error'', JString ''bad field'')])\<rparr>"
          ascii_int from_dict_SearchResponse "[(''error'', JString ''bad field'')]" "''bad field''" 0 0 "JNull" SerdeError]
    by simp
  have w_nojson:
    "bind_result (request ascii_int (answering \<lparr>status_code = 400, headers = no_headers, body_json = None\<rparr>) ''KEY'' ''GET'' ''https://api.hackcheck.io/search/email/a@b.com'' None) from_dict_SearchResponse
      = Inl JSONDecodeError"
    using classification_precedes_decode
      [of "answering \<lparr>status_code = 400, headers = no_headers, body_json = None\<rparr>" "''GET''" "''https://api.hackcheck.io/search/email/a@b.com''" None "''KEY''"
          "\<lparr>status_code = 400, headers = no_headers, body_json = None\<rparr>"
          ascii_int from_dict_SearchResponse "[]" "''''" 0 0 "JNull" SerdeError]
    by simp
  have w_nodecode:
    "bind_result (request ascii_int (answering \<lparr>status_code = 401, headers = no_headers, body_json = Some (JArray [])\<rparr>) ''KEY'' ''GET'' ''https://api.hackcheck.io/search/email/a@b.com'' None) from_dict_SearchResponse
      = Inl SerdeError"
    using classification_precedes_decode
      [of "answering \<lparr>status_code = 401, headers = no_headers, body_json = Some (JArray [])\<rparr>" "''GET''" "''https://api.hackcheck.io/search/email/a@b.com''" None "''KEY''"
          "\<lparr>status_code = 401, headers = no_headers, body_json = Some (JArray [])\<rparr>"
          ascii_int from_dict_SearchResponse "[]" "''''" 0 0 "JArray []" SerdeError]
    by simp
  have w_limit:
    "bind_result (request ascii_int (answering \<lparr>status_code = 429, headers = no_headers(''X-HackCheck-Limit'' \<mapsto> ''abc''), body_json = None\<rparr>) ''KEY'' ''GET'' ''https://api.hackcheck.io/search/email/a@b.com'' None) from_dict_SearchResponse
      = Inl ValueError"
    using classification_precedes_decode
      [of "answering \<lparr>status_code = 429, headers = no_headers(''X-HackCheck-Limit'' \<mapsto> ''abc''), body_json = None\<rparr>" "''GET''" "''https://api.hackcheck.io/search/email/a@b.com''" None "''KEY''"
          "\<lparr>status_code = 429, headers = no_headers(''X-HackCheck-Limit'' \<mapsto> ''abc''), body_json = None\<rparr>"
          ascii_int from_dict_SearchResponse "[]" "''''" 0 0 "JNull" ValueError]
    by (simp add: int_header_def ascii_int_abc)
  have w_remaining:
    "bind_result (request ascii_int (answering \<lparr>status_code = 429, headers = no_headers(''X-HackCheck-Remaining'' \<mapsto> ''n/a''), body_json = None\<rparr>) ''KEY'' ''GET'' ''https://api.hackcheck.io/search/email/a@b.com'' None) from_dict_SearchResponse
      = Inl ValueError"
    using classification_precedes_decode
      [of "answering \<lparr>status_code = 429, headers = no_headers(''X-HackCheck-Remaining'' \<mapsto> ''n/a''), body_json = None\<rparr>" "''GET''" "''https://api.hackcheck.io/search/email/a@b.com''" None "''KEY''"
          "\<lparr>status_code = 429, headers = no_headers(''X-HackCheck-Remaining'' \<mapsto> ''n/a''), body_json = None\<rparr>"
          ascii_int from_dict_SearchResponse "[]" "''''" 0 0 "JNull" ValueError]
    by (simp add: int_header_def ascii_int_na)
  have w_other:
    "bind_result (request ascii_int (answering \<lparr>status_code = 200, headers = no_headers, body_json = Some (JObject [(''error'', JString ''Not found.'')])\<rparr>) ''KEY'' ''GET'' ''https://api.hackcheck.io/search/email/a@b.com'' None) from_dict_SearchResponse
      = from_dict_SearchResponse (JObject [(''error'', JString ''Not found.'')])"
    using classification_precedes_decode
      [of "answering \<lparr>status_code = 200, headers = no_headers, body_json = Some (JObject [(''error'', JString ''Not found.'')])\<rparr>" "''GET''" "''https://api.hackcheck.io/search/email/a@b.com''" None "''KEY''"
          "\<lparr>status_code = 200, headers = no_headers, body_json = Some (JObject [(''error'', JString ''Not found.'')])\<rparr>"
          ascii_int from_dict_SearchResponse "[]" "''''" 0 0 "JNull" SerdeError]
    by simp
  show ?thesis
    using w_raises w401 w429 w400 w_nojson w_nodecode w_limit w_remaining w_other
    by (intro conjI)
qed

text \<open>
  A response with one of the four statuses does not always raise the error its status
  stands for: a 404 whose body is not JSON raises the failure of \<^verbatim>\<open>response.json()\<close>, not
  the plain exception with the service's message.
\<close>

theorem not_found_without_json_body:
  "request ascii_int (answering \<lparr>status_code = 404, headers = no_headers, body_json = None\<rparr>) ''KEY'' ''GET'' ''https://api.hackcheck.io/search/email/a@b.com'' None = Inl JSONDecodeError"
  by (simp add: request_def response_json_def)

text \<open>
  C4.  A 429 response raises \<open>RateLimitError\<close> with the limit and the remaining count
  read from the headers \<open>X-HackCheck-Limit\<close> and \<open>X-HackCheck-Remaining\<close>: each is
  \<open>0\<close> when its header is absent, and the integer that \<^verbatim>\<open>int\<close> reads from the header's
  value when \<^verbatim>\<open>int\<close> accepts that value.
\<close>

theorem rate_limit_values:
  assumes "http \<lparr>req_method = method, req_url = url, req_json = body,
                 req_headers = [(''Authorization'', ''Bearer '' @ api_key)]\<rparr> = Inr response"
    and "status_code response = 429"
    and "(headers response ''X-HackCheck-Limit'' = None \<and> limit = 0)
         \<or> (\<exists>v. headers response ''X-HackCheck-Limit'' = Some v \<and> py_int v = Inr limit)"
    and "(headers response ''X-HackCheck-Remaining'' = None \<and> remaining = 0)
         \<or> (\<exists>v. headers response ''X-HackCheck-Remaining'' = Some v \<and> py_int v = Inr remaining)"
  shows "request py_int http api_key method url body = Inl (RateLimitError limit remaining)"
proof -
  have l: "int_header py_int response ''X-HackCheck-Limit'' = Inr limit"
    using assms(3) by (rule int_header_value)
  have r: "int_header py_int response ''X-HackCheck-Remaining'' = Inr remaining"
    using assms(4) by (rule int_header_value)
  show ?thesis
    using assms(1,2) l r by (simp add: request_def)
qed

theorem rate_limit_values_witness:
  "request ascii_int (answering \<lparr>status_code = 429, headers = no_headers(''X-HackCheck-Limit'' \<mapsto> ''100'', ''X-HackCheck-Remaining'' \<mapsto> ''0''), body_json = None\<rparr>) ''KEY'' ''GET'' ''https://api.hackcheck.io/monitors'' None
   = Inl (RateLimitError 100 0)
   \<and> request ascii_int (answering \<lparr>status_code = 429, headers = no_headers, body_json = None\<rparr>) ''KEY'' ''GET'' ''https://api.hackcheck.io/monitors'' None
   = Inl (RateLimitError 0 0)"
  using rate_limit_values
    [of "answering \<lparr>status_code = 429, headers = no_headers(''X-HackCheck-Limit'' \<mapsto> ''100'', ''X-HackCheck-Remaining'' \<mapsto> ''0''), body_json = None\<rparr>" "''GET''" "''https://api.hackcheck.io/monitors''" None "''KEY''"
        "\<lparr>status_code = 429, headers = no_headers(''X-HackCheck-Limit'' \<mapsto> ''100'', ''X-HackCheck-Remaining'' \<mapsto> ''0''), body_json = None\<rparr>"
        100 ascii_int 0]
    rate_limit_values
    [of "answering \<lparr>status_code = 429, headers = no_headers, body_json = None\<rparr>" "''GET''" "''https://api.hackcheck.io/monitors''" None "''KEY''"
        "\<lparr>status_code = 429, headers = no_headers, body_json = None\<rparr>"
        0 ascii_int 0]
  by (simp add: ascii_int_100 ascii_int_0)

text \<open>
  A header whose value \<^verbatim>\<open>int\<close> does not accept does not default to \<open>0\<close>: the conversion
  raises \<open>ValueError\<close> and no \<open>RateLimitError\<close> is built.
\<close>

theorem rate_limit_unparseable_header:
  "request ascii_int (answering \<lparr>status_code = 429, headers = no_headers(''X-HackCheck-Limit'' \<mapsto> ''abc'', ''X-HackCheck-Remaining'' \<mapsto> ''0''), body_json = None\<rparr>) ''KEY'' ''GET'' ''https://api.hackcheck.io/monitors'' None
   = Inl ValueError
   \<and> Inl ValueError \<noteq> (Inl (RateLimitError 0 0) :: error + json)"
  by (simp add: request_def int_header_def ascii_int_abc)

text \<open>
  C5.  A 400 or 404 response whose body is a JSON object with the string \<open>s\<close> under
  \<open>error\<close> raises the plain exception whose message is \<open>s\<close> itself.
\<close>

theorem client_error_message_verbatim:
  assumes "http \<lparr>req_method = method, req_url = url, req_json = body,
                 req_headers = [(''Authorization'', ''Bearer '' @ api_key)]\<rparr> = Inr response"
    and "status_code response = 400 \<or> status_code response = 404"
    and "body_json response = Some (JObject data)"
    and "map_of data ''error'' = Some (JString s)"
  shows "request py_int http api_key method url body = Inl (Exception s)"
  using assms by (auto simp add: request_def response_json_def get_field_def)

theorem client_error_message_verbatim_witness:
  "request ascii_int (answering \<lparr>status_code = 400, headers = no_headers, body_json = Some (JObject [(''error'', JString ''bad field'')])\<rparr>) ''KEY'' ''GET'' ''https://api.hackcheck.io/search/nope/x'' None
   = Inl (Exception ''bad field'')"
  using client_error_message_verbatim
    [of "answering \<lparr>status_code = 400, headers = no_headers, body_json = Some (JObject [(''error'', JString ''bad field'')])\<rparr>" "''GET''" "''https://api.hackcheck.io/search/nope/x''" None "''KEY''"
        "\<lparr>status_code = 400, headers = no_headers, body_json = Some (JObject [(''error'', JString ''bad field'')])\<rparr>"
        "[(''error'', JString ''bad field'')]" "''bad field''" ascii_int]
  by simp

section \<open>Decoding and encoding\<close>

lemma SearchResponse_without_pagination:
  assumes "from_dict_SearchResponse (JObject data) = Inr r"
    and "map_of data' ''pagination'' = None \<or> map_of data' ''pagination'' = Some JNull"
    and "\<forall>k. k \<noteq> ''pagination'' \<longrightarrow> map_of data' k = map_of data k"
  shows "from_dict_SearchResponse (JObject data') = Inr (r\<lparr>resp_pagination := None\<rparr>)"
proof -
  have g: "get_field data' ''databases'' = get_field data ''databases''"
      "get_field data' ''results'' = get_field data ''results''"
      "get_field data' ''first_seen'' = get_field data ''first_seen''"
      "get_field data' ''last_seen'' = get_field data ''last_seen''"
    using assms(3) by (simp_all add: get_field_def)
  obtain databases where d: "bind_result (get_field data ''databases'') de_int = Inr databases"
    using assms(1) by (cases "bind_result (get_field data ''databases'') de_int") simp_all
  obtain results where rs:
    "bind_result (get_field data ''results'') (de_list from_dict_SearchResult) = Inr results"
    using assms(1) d
    by (cases "bind_result (get_field data ''results'') (de_list from_dict_SearchResult)") simp_all
  obtain pagination where pg:
    "de_opt from_dict_SearchResponsePagination data ''pagination'' = Inr pagination"
    using assms(1) d rs
    by (cases "de_opt from_dict_SearchResponsePagination data ''pagination''") simp_all
  obtain first_seen where fs: "bind_result (get_field data ''first_seen'') de_str = Inr first_seen"
    using assms(1) d rs pg
    by (cases "bind_result (get_field data ''first_seen'') de_str") simp_all
  obtain last_seen where ls: "bind_result (get_field data ''last_seen'') de_str = Inr last_seen"
    using assms(1) d rs pg fs
    by (cases "bind_result (get_field data ''last_seen'') de_str") simp_all
  have r: "r = \<lparr>resp_databases = databases, resp_results = results,
                resp_pagination = pagination, resp_first_seen = first_seen,
                resp_last_seen = last_seen\<rparr>"
    using assms(1) d rs pg fs ls by simp
  show ?thesis
    by (simp add: g d rs fs ls r de_opt_absent [OF assms(2)])
qed


lemma SearchResponsePagination_without_next:
  assumes "from_dict_SearchResponsePagination (JObject data) = Inr p"
    and "map_of data' ''next'' = None \<or> map_of data' ''next'' = Some JNull"
    and "\<forall>k. k \<noteq> ''next'' \<longrightarrow> map_of data' k = map_of data k"
  shows "from_dict_SearchResponsePagination (JObject data') = Inr (p\<lparr>srp_next := None\<rparr>)"
proof -
  have g: "get_field data' ''document_count'' = get_field data ''document_count''"
    using assms(3) by (simp add: get_field_def)
  have o: "de_opt from_dict_PaginationData data' ''prev''
             = de_opt from_dict_PaginationData data ''prev''"
    using assms(3) by (simp add: de_opt_def)
  obtain document_count where d:
    "bind_result (get_field data ''document_count'') de_int = Inr document_count"
    using assms(1) by (cases "bind_result (get_field data ''document_count'') de_int") simp_all
  obtain nxt where n: "de_opt from_dict_PaginationData data ''next'' = Inr nxt"
    using assms(1) d by (cases "de_opt from_dict_PaginationData data ''next''") simp_all
  obtain prv where v: "de_opt from_dict_PaginationData data ''prev'' = Inr prv"
    using assms(1) d n by (cases "de_opt from_dict_PaginationData data ''prev''") simp_all
  have p: "p = \<lparr>srp_document_count = document_count, srp_next = nxt, srp_prev = prv\<rparr>"
    using assms(1) d n v by simp
  show ?thesis
    by (simp add: g o d n v p de_opt_absent [OF assms(2)])
qed

lemma SearchResponsePagination_without_prev:
  assumes "from_dict_SearchResponsePagination (JObject data) = Inr p"
    and "map_of data' ''prev'' = None \<or> map_of data' ''prev'' = Some JNull"
    and "\<forall>k. k \<noteq> ''prev'' \<longrightarrow> map_of data' k = map_of data k"
  shows "from_dict_SearchResponsePagination (JObject data') = Inr (p\<lparr>srp_prev := None\<rparr>)"
proof -
  have g: "get_field data' ''document_count'' = get_field data ''document_count''"
    using assms(3) by (simp add: get_field_def)
  have o: "de_opt from_dict_PaginationData data' ''next''
             = de_opt from_dict_PaginationData data ''next''"
    using assms(3) by (simp add: de_opt_def)
  obtain document_count where d:
    "bind_result (get_field data ''document_count'') de_int = Inr document_count"
    using assms(1) by (cases "bind_result (get_field data ''document_count'') de_int") simp_all
  obtain nxt where n: "de_opt from_dict_PaginationData data ''next'' = Inr nxt"
    using assms(1) d by (cases "de_opt from_dict_PaginationData data ''next''") simp_all
  obtain prv where v: "de_opt from_dict_PaginationData data ''prev'' = Inr prv"
    using assms(1) d n by (cases "de_opt from_dict_PaginationData data ''prev''") simp_all
  have p: "p = \<lparr>srp_document_count = document_count, srp_next = nxt, srp_prev = prv\<rparr>"
    using assms(1) d n v by simp
  show ?thesis
    by (simp add: g o d n v p de_opt_absent [OF assms(2)])
qed

text \<open>
  C6.  Take a JSON object whose \<open>pagination\<close> key is missing or holds null, and whose other
  members are those of an object that decodes as \<open>SearchResponse\<close> to \<open>r\<close> (the object
  itself, for one).  It decodes, to \<open>r\<close> with the member \<open>pagination\<close> being \<open>None\<close>: the
  missing or null key neither fails the decoding nor is replaced by a default value.  The
  same holds for the members \<open>next\<close> and \<open>prev\<close> of \<open>SearchResponsePagination\<close>.
\<close>

theorem optional_members_decode_to_None:
  "(from_dict_SearchResponse (JObject data) = Inr r \<longrightarrow>
      (map_of data' ''pagination'' = None \<or> map_of data' ''pagination'' = Some JNull) \<longrightarrow>
      (\<forall>k. k \<noteq> ''pagination'' \<longrightarrow> map_of data' k = map_of data k) \<longrightarrow>
      from_dict_SearchResponse (JObject data') = Inr (r\<lparr>resp_pagination := None\<rparr>))
   \<and> (from_dict_SearchResponsePagination (JObject ndata) = Inr p \<longrightarrow>
      (map_of ndata' ''next'' = None \<or> map_of ndata' ''next'' = Some JNull) \<longrightarrow>
      (\<forall>k. k \<noteq> ''next'' \<longrightarrow> map_of ndata' k = map_of ndata k) \<longrightarrow>
      from_dict_SearchResponsePagination (JObject ndata') = Inr (p\<lparr>srp_next := None\<rparr>))
   \<and> (from_dict_SearchResponsePagination (JObject pdata) = Inr q \<longrightarrow>
      (map_of pdata' ''prev'' = None \<or> map_of pdata' ''prev'' = Some JNull) \<longrightarrow>
      (\<forall>k. k \<noteq> ''prev'' \<longrightarrow> map_of pdata' k = map_of pdata k) \<longrightarrow>
      from_dict_SearchResponsePagination (JObject pdata') = Inr (q\<lparr>srp_prev := None\<rparr>))"
  by (intro conjI impI;
      (rule SearchResponse_without_pagination | rule SearchResponsePagination_without_next
        | rule SearchResponsePagination_without_prev);
      assumption)

theorem optional_members_decode_to_None_witness:
  "from_dict_SearchResponse (JObject [(''databases'', JInt 3), (''results'', JArray []), (''first_seen'', JString ''2019-01-01''), (''last_seen'', JString ''2020-01-01'')])
   = Inr \<lparr>resp_databases = 3, resp_results = [], resp_pagination = None,
          resp_first_seen = ''2019-01-01'', resp_last_seen = ''2020-01-01''\<rparr>
   \<and> from_dict_SearchResponse (JObject [(''databases'', JInt 3), (''results'', JArray []), (''pagination'', JNull), (''first_seen'', JString ''2019-01-01''), (''last_seen'', JString ''2020-01-01'')])
   = Inr \<lparr>resp_databases = 3, resp_results = [], resp_pagination = None,
          resp_first_seen = ''2019-01-01'', resp_last_seen = ''2020-01-01''\<rparr>
   \<and> from_dict_SearchResponsePagination (JObject [(''document_count'', JInt 25), (''prev'', JObject [(''offset'', JInt 0), (''limit'', JInt 10)])])
   = Inr \<lparr>srp_document_count = 25, srp_next = None, srp_prev = Some \<lparr>pd_offset = 0, pd_limit = 10\<rparr>\<rparr>
   \<and> from_dict_SearchResponsePagination (JObject [(''document_count'', JInt 25), (''next'', JNull), (''prev'', JObject [(''offset'', JInt 0), (''limit'', JInt 10)])])
   = Inr \<lparr>srp_document_count = 25, srp_next = None, srp_prev = Some \<lparr>pd_offset = 0, pd_limit = 10\<rparr>\<rparr>
   \<and> from_dict_SearchResponsePagination (JObject [(''document_count'', JInt 25), (''next'', JObject [(''offset'', JInt 10), (''limit'', JInt 10)])])
   = Inr \<lparr>srp_document_count = 25, srp_next = Some \<lparr>pd_offset = 10, pd_limit = 10\<rparr>, srp_prev = None\<rparr>
   \<and> from_dict_SearchResponsePagination (JObject [(''document_count'', JInt 25), (''next'', JObject [(''offset'', JInt 10), (''limit'', JInt 10)]), (''prev'', JNull)])
   = Inr \<lparr>srp_document_count = 25, srp_next = Some \<lparr>pd_offset = 10, pd_limit = 10\<rparr>, srp_prev = None\<rparr>"
proof -
  have missing:
    "from_dict_SearchResponse (JObject [(''databases'', JInt 3), (''results'', JArray []), (''first_seen'', JString ''2019-01-01''), (''last_seen'', JString ''2020-01-01'')])
     = Inr \<lparr>resp_databases = 3, resp_results = [], resp_pagination = None,
          resp_first_seen = ''2019-01-01'', resp_last_seen = ''2020-01-01''\<rparr>
     \<and> from_dict_SearchResponsePagination (JObject [(''document_count'', JInt 25), (''prev'', JObject [(''offset'', JInt 0), (''limit'', JInt 10)])])
     = Inr \<lparr>srp_document_count = 25, srp_next = None, srp_prev = Some \<lparr>pd_offset = 0, pd_limit = 10\<rparr>\<rparr>
     \<and> from_dict_SearchResponsePagination (JObject [(''document_count'', JInt 25), (''next'', JObject [(''offset'', JInt 10), (''limit'', JInt 10)])])
     = Inr \<lparr>srp_document_count = 25, srp_next = Some \<lparr>pd_offset = 10, pd_limit = 10\<rparr>, srp_prev = None\<rparr>"
    using optional_members_decode_to_None
      [of "[(''databases'', JInt 3), (''results'', JArray []), (''pagination'', JObject [(''document_count'', JInt 5)]), (''first_seen'', JString ''2019-01-01''), (''last_seen'', JString ''2020-01-01'')]"
          "\<lparr>resp_databases = 3, resp_results = [], resp_pagination = Some \<lparr>srp_document_count = 5, srp_next = None, srp_prev = None\<rparr>,
          resp_first_seen = ''2019-01-01'', resp_last_seen = ''2020-01-01''\<rparr>"
          "[(''databases'', JInt 3), (''results'', JArray []), (''first_seen'', JString ''2019-01-01''), (''last_seen'', JString ''2020-01-01'')]"
          "[(''document_count'', JInt 25), (''next'', JObject [(''offset'', JInt 10), (''limit'', JInt 10)]), (''prev'', JObject [(''offset'', JInt 0), (''limit'', JInt 10)])]"
          "\<lparr>srp_document_count = 25, srp_next = Some \<lparr>pd_offset = 10, pd_limit = 10\<rparr>, srp_prev = Some \<lparr>pd_offset = 0, pd_limit = 10\<rparr>\<rparr>"
          "[(''document_count'', JInt 25), (''prev'', JObject [(''offset'', JInt 0), (''limit'', JInt 10)])]"
          "[(''document_count'', JInt 25), (''next'', JObject [(''offset'', JInt 10), (''limit'', JInt 10)]), (''prev'', JObject [(''offset'', JInt 0), (''limit'', JInt 10)])]"
          "\<lparr>srp_document_count = 25, srp_next = Some \<lparr>pd_offset = 10, pd_limit = 10\<rparr>, srp_prev = Some \<lparr>pd_offset = 0, pd_limit = 10\<rparr>\<rparr>"
          "[(''document_count'', JInt 25), (''next'', JObject [(''offset'', JInt 10), (''limit'', JInt 10)])]"]
    by (simp add: get_field_def de_opt_def)
  have null:
    "from_dict_SearchResponse (JObject [(''databases'', JInt 3), (''results'', JArray []), (''pagination'', JNull), (''first_seen'', JString ''2019-01-01''), (''last_seen'', JString ''2020-01-01'')])
     = Inr \<lparr>resp_databases = 3, resp_results = [], resp_pagination = None,
          resp_first_seen = ''2019-01-01'', resp_last_seen = ''2020-01-01''\<rparr>
     \<and> from_dict_SearchResponsePagination (JObject [(''document_count'', JInt 25), (''next'', JNull), (''prev'', JObject [(''offset'', JInt 0), (''limit'', JInt 10)])])
     = Inr \<lparr>srp_document_count = 25, srp_next = None, srp_prev = Some \<lparr>pd_offset = 0, pd_limit = 10\<rparr>\<rparr>
     \<and> from_dict_SearchResponsePagination (JObject [(''document_count'', JInt 25), (''next'', JObject [(''offset'', JInt 10), (''limit'', JInt 10)]), (''prev'', JNull)])
     = Inr \<lparr>srp_document_count = 25, srp_next = Some \<lparr>pd_offset = 10, pd_limit = 10\<rparr>, srp_prev = None\<rparr>"
    using optional_members_decode_to_None
      [of "[(''databases'', JInt 3), (''results'', JArray []), (''pagination'', JObject [(''document_count'', JInt 5)]), (''first_seen'', JString ''2019-01-01''), (''last_seen'', JString ''2020-01-01'')]"
          "\<lparr>resp_databases = 3, resp_results = [], resp_pagination = Some \<lparr>srp_document_count = 5, srp_next = None, srp_prev = None\<rparr>,
          resp_first_seen = ''2019-01-01'', resp_last_seen = ''2020-01-01''\<rparr>"
          "[(''databases'', JInt 3), (''results'', JArray []), (''pagination'', JNull), (''first_seen'', JString ''2019-01-01''), (''last_seen'', JString ''2020-01-01'')]"
          "[(''document_count'', JInt 25), (''next'', JObject [(''offset'', JInt 10), (''limit'', JInt 10)]), (''prev'', JObject [(''offset'', JInt 0), (''limit'', JInt 10)])]"
          "\<lparr>srp_document_count = 25, srp_next = Some \<lparr>pd_offset = 10, pd_limit = 10\<rparr>, srp_prev = Some \<lparr>pd_offset = 0, pd_limit = 10\<rparr>\<rparr>"
          "[(''document_count'', JInt 25), (''next'', JNull), (''prev'', JObject [(''offset'', JInt 0), (''limit'', JInt 10)])]"
          "[(''document_count'', JInt 25), (''next'', JObject [(''offset'', JInt 10), (''limit'', JInt 10)]), (''prev'', JObject [(''offset'', JInt 0), (''limit'', JInt 10)])]"
          "\<lparr>srp_document_count = 25, srp_next = Some \<lparr>pd_offset = 10, pd_limit = 10\<rparr>, srp_prev = Some \<lparr>pd_offset = 0, pd_limit = 10\<rparr>\<rparr>"
          "[(''document_count'', JInt 25), (''next'', JObject [(''offset'', JInt 10), (''limit'', JInt 10)]), (''prev'', JNull)]"]
    by (simp add: get_field_def de_opt_def)
  show ?thesis
    using missing null by simp
qed

text \<open>
  C7.  Encode the parameters of an asset-monitor update, and let the service answer with
  the encoded members plus \<open>id\<close>, \<open>status\<close>, \<open>expires_soon\<close>, the two timestamps and
  the field type once more under the key \<open>type\<close>.  Decoding that answer succeeds, and
  the field type, the asset and the notification email of the result are the original
  values.
\<close>

theorem asset_monitor_round_trip:
  assumes "to_dict_UpdateAssetMonitorParams params = JObject encoded"
    and "fromisoformat created = Some created_at"
    and "fromisoformat ends = Some ends_at"
  shows "from_dict_AssetMonitor fromisoformat
           (JObject (encoded @
              [(''id'', JString monitor_id), (''status'', JInt status),
               (''type'', JString (uam_asset_type params)),
               (''expires_soon'', JBool expires_soon),
               (''created_at'', JString created), (''ends_at'', JString ends)]))
         = Inr \<lparr>am_id = monitor_id, am_status = status, am_type = uam_asset_type params,
                am_asset = uam_asset params,
                am_notification_email = uam_notification_email params,
                am_expires_soon = expires_soon,
                am_created_at = created_at, am_ends_at = ends_at\<rparr>"
  using assms by (auto simp add: to_dict_UpdateAssetMonitorParams_def get_field_def)

theorem asset_monitor_round_trip_witness:
  "from_dict_AssetMonitor Some
     (JObject [(''asset_type'', JString ''email''), (''asset'', JString ''a@b.com''),
               (''notification_email'', JString ''n@x.com''),
               (''id'', JString ''m1''), (''status'', JInt 0), (''type'', JString ''email''),
               (''expires_soon'', JBool False),
               (''created_at'', JString ''2024-01-01T00:00:00''),
               (''ends_at'', JString ''2025-01-01T00:00:00'')])
   = Inr \<lparr>am_id = ''m1'', am_status = 0, am_type = ''email'', am_asset = ''a@b.com'',
          am_notification_email = ''n@x.com'', am_expires_soon = False,
          am_created_at = ''2024-01-01T00:00:00'', am_ends_at = ''2025-01-01T00:00:00''\<rparr>"
  using asset_monitor_round_trip
    [of "\<lparr>uam_asset_type = ''email'', uam_asset = ''a@b.com'',
          uam_notification_email = ''n@x.com''\<rparr>"
        "[(''asset_type'', JString ''email''), (''asset'', JString ''a@b.com''),
          (''notification_email'', JString ''n@x.com'')]"
        Some "''2024-01-01T00:00:00''" "''2024-01-01T00:00:00''"
        "''2025-01-01T00:00:00''" "''2025-01-01T00:00:00''" "''m1''" 0 False]
  by (simp add: to_dict_UpdateAssetMonitorParams_def)

text \<open>
  The encoded members with only \<open>id\<close>, \<open>status\<close> and the timestamps added do not
  decode: the parameters carry the field type under \<open>asset_type\<close>, the monitor reads it
  from \<open>type\<close>, and \<open>expires_soon\<close> is required as well.
\<close>

theorem asset_monitor_echo_of_encoded_members:
  "to_dict_UpdateAssetMonitorParams
     \<lparr>uam_asset_type = ''email'', uam_asset = ''a@b.com'',
      uam_notification_email = ''n@x.com''\<rparr>
   = JObject [(''asset_type'', JString ''email''), (''asset'', JString ''a@b.com''),
              (''notification_email'', JString ''n@x.com'')]
   \<and> from_dict_AssetMonitor Some
     (JObject [(''asset_type'', JString ''email''), (''asset'', JString ''a@b.com''),
               (''notification_email'', JString ''n@x.com''),
               (''id'', JString ''m1''), (''status'', JInt 0),
               (''created_at'', JString ''2024-01-01T00:00:00''),
               (''ends_at'', JString ''2025-01-01T00:00:00'')])
   = Inl SerdeError"
  by (simp add: to_dict_UpdateAssetMonitorParams_def get_field_def)

section \<open>Rate limiting and the body\<close>

text \<open>
  C10.  For a 429 response the outcome depends on the two rate-limit headers only: two
  429 responses that agree on these two headers give the same outcome, whatever their
  bodies and their other headers are, the body that is not JSON included.  That outcome
  is the \<open>RateLimitError\<close> of the two header values whenever each header is absent or
  holds a value that \<^verbatim>\<open>int\<close> accepts.
\<close>

theorem rate_limit_ignores_body:
  assumes "http \<lparr>req_method = method, req_url = url, req_json = body,
                 req_headers = [(''Authorization'', ''Bearer '' @ api_key)]\<rparr> = Inr response"
    and "http' \<lparr>req_method = method, req_url = url, req_json = body,
                 req_headers = [(''Authorization'', ''Bearer '' @ api_key)]\<rparr> = Inr response'"
    and "status_code response = 429" and "status_code response' = 429"
    and "headers response' ''X-HackCheck-Limit'' = headers response ''X-HackCheck-Limit''"
    and "headers response' ''X-HackCheck-Remaining'' = headers response ''X-HackCheck-Remaining''"
  shows "request py_int http' api_key method url body = request py_int http api_key method url body
       \<and> ((headers response ''X-HackCheck-Limit'' = None \<and> limit = 0)
             \<or> (\<exists>v. headers response ''X-HackCheck-Limit'' = Some v \<and> py_int v = Inr limit) \<longrightarrow>
          (headers response ''X-HackCheck-Remaining'' = None \<and> remaining = 0)
             \<or> (\<exists>v. headers response ''X-HackCheck-Remaining'' = Some v \<and> py_int v = Inr remaining) \<longrightarrow>
          request py_int http' api_key method url body = Inl (RateLimitError limit remaining))"
proof -
  have same: "int_header py_int response' name = int_header py_int response name"
    if "name = ''X-HackCheck-Limit'' \<or> name = ''X-HackCheck-Remaining''" for name
    using that assms(5,6) by (auto simp add: int_header_def)
  have eq: "request py_int http' api_key method url body = request py_int http api_key method url body"
    using assms(1-4) same by (simp add: request_def)
  have val: "request py_int http api_key method url body = Inl (RateLimitError limit remaining)"
    if "(headers response ''X-HackCheck-Limit'' = None \<and> limit = 0)
          \<or> (\<exists>v. headers response ''X-HackCheck-Limit'' = Some v \<and> py_int v = Inr limit)"
      and "(headers response ''X-HackCheck-Remaining'' = None \<and> remaining = 0)
          \<or> (\<exists>v. headers response ''X-HackCheck-Remaining'' = Some v \<and> py_int v = Inr remaining)"
    using assms(1,3) int_header_value [OF that(1)] int_header_value [OF that(2)]
    by (simp add: request_def)
  show ?thesis
    using eq val by simp
qed

theorem rate_limit_ignores_body_witness:
  "request ascii_int (answering \<lparr>status_code = 429, headers = no_headers(''X-HackCheck-Limit'' \<mapsto> ''100''), body_json = None\<rparr>)
       ''KEY'' ''GET'' ''https://api.hackcheck.io/monitors'' None
   = request ascii_int (answering \<lparr>status_code = 429, headers = no_headers(''X-HackCheck-Limit'' \<mapsto> ''100'', ''Retry-After'' \<mapsto> ''60''), body_json = Some (JObject [(''error'', JString ''Too many requests.'')])\<rparr>)
       ''KEY'' ''GET'' ''https://api.hackcheck.io/monitors'' None
   \<and> request ascii_int (answering \<lparr>status_code = 429, headers = no_headers(''X-HackCheck-Limit'' \<mapsto> ''100''), body_json = None\<rparr>)
       ''KEY'' ''GET'' ''https://api.hackcheck.io/monitors'' None
   = Inl (RateLimitError 100 0)"
  using rate_limit_ignores_body
    [of "answering \<lparr>status_code = 429, headers = no_headers(''X-HackCheck-Limit'' \<mapsto> ''100'', ''Retry-After'' \<mapsto> ''60''), body_json = Some (JObject [(''error'', JString ''Too many requests.'')])\<rparr>"
        "''GET''" "''https://api.hackcheck.io/monitors''" None "''KEY''"
        "\<lparr>status_code = 429, headers = no_headers(''X-HackCheck-Limit'' \<mapsto> ''100'', ''Retry-After'' \<mapsto> ''60''), body_json = Some (JObject [(''error'', JString ''Too many requests.'')])\<rparr>"
        "answering \<lparr>status_code = 429, headers = no_headers(''X-HackCheck-Limit'' \<mapsto> ''100''), body_json = None\<rparr>"
        "\<lparr>status_code = 429, headers = no_headers(''X-HackCheck-Limit'' \<mapsto> ''100''), body_json = None\<rparr>"
        ascii_int 100 0]
  by (auto simp add: ascii_int_100)

text \<open>
  A 429 response does not always raise \<open>RateLimitError\<close>, whatever its body is: when a
  rate-limit header holds a value that \<^verbatim>\<open>int\<close> does not accept the conversion raises.
\<close>

theorem rate_limit_with_body_unparseable_header:
  "request ascii_int (answering \<lparr>status_code = 429, headers = no_headers(''X-HackCheck-Remaining'' \<mapsto> ''n/a''), body_json = Some (JObject [(''error'', JString ''Too many requests.'')])\<rparr>)
       ''KEY'' ''GET'' ''https://api.hackcheck.io/monitors'' None
   = Inl ValueError"
  by (simp add: request_def int_header_def ascii_int_na)

end
